theory Spec2Isabelle
  imports Complex_Main "HOL-Library.Sublist" "HOL-Library.AList"
begin

section \<open>Python values and strings\<close>

text \<open>
  The invoice pipeline works on the values that \<^verbatim>\<open>json.loads\<close> produces: dictionaries,
  lists, strings, numbers, booleans and \<^verbatim>\<open>None\<close>.  A dictionary keeps its insertion order,
  so it is an association list; a lookup sees the first binding of a key.  A Python
  string is modelled as a \<^typ>\<open>string\<close> whose characters are the code points below 256.
  A Python float is modelled by the exact decimal value its literal denotes; the
  rounding to a binary64 double is not part of the model.
\<close>

datatype pyfloat = Finite rat | PosInf | NegInf | NaN

datatype json =
    JNull
  | JBool bool
  | JInt int
  | JFloat pyfloat
  | JStr string
  | JList "json list"
  | JObj "(string \<times> json) list"

text \<open>The exceptions the modelled code raises or lets through.\<close>

datatype exn =
    HTTPException nat string
  | JSONDecodeError string
  | TypeError
  | KeyError
  | AttributeError
  | OtherError string

text \<open>Truth value of a Python object, as \<^verbatim>\<open>not x\<close> and \<^verbatim>\<open>if x\<close> test it.\<close>

fun py_truthy :: "json \<Rightarrow> bool" where
  "py_truthy JNull = False"
| "py_truthy (JBool b) = b"
| "py_truthy (JInt i) = (i \<noteq> 0)"
| "py_truthy (JFloat f) = (f \<noteq> Finite 0)"
| "py_truthy (JStr s) = (s \<noteq> [])"
| "py_truthy (JList xs) = (xs \<noteq> [])"
| "py_truthy (JObj kvs) = (kvs \<noteq> [])"

fun is_str :: "json \<Rightarrow> bool" where
  "is_str (JStr s) = True"
| "is_str _ = False"

fun is_list :: "json \<Rightarrow> bool" where
  "is_list (JList xs) = True"
| "is_list _ = False"

definition is_digit :: "char \<Rightarrow> bool" where
  "is_digit c = (let n = (of_char c :: nat) in 48 \<le> n \<and> n \<le> 57)"

definition digit_val :: "char \<Rightarrow> nat" where
  "digit_val c = of_char c - 48"

text \<open>\<^verbatim>\<open>str.isspace\<close> on one code point below 256.\<close>

definition py_isspace :: "char \<Rightarrow> bool" where
  "py_isspace c = (let n = (of_char c :: nat) in
     (9 \<le> n \<and> n \<le> 13) \<or> (28 \<le> n \<and> n \<le> 32) \<or> n = 133 \<or> n = 160)"

text \<open>\<^verbatim>\<open>str.lower\<close>: the capital letters of ASCII and of Latin-1 move up by 32.\<close>

definition lower_char :: "char \<Rightarrow> char" where
  "lower_char c = (let n = (of_char c :: nat) in
     if (65 \<le> n \<and> n \<le> 90) \<or> (192 \<le> n \<and> n \<le> 222 \<and> n \<noteq> 215)
     then char_of (n + 32) else c)"

definition py_lower :: "string \<Rightarrow> string" where
  "py_lower s = map lower_char s"

text \<open>\<^verbatim>\<open>str.strip()\<close>: white space goes at both ends, never inside.\<close>

definition py_strip :: "string \<Rightarrow> string" where
  "py_strip s = rev (dropWhile py_isspace (rev (dropWhile py_isspace s)))"

text \<open>
  \<^verbatim>\<open>s.replace(old, new)\<close> where \<^verbatim>\<open>old\<close> is one character, which is how the source
  calls it (\<^verbatim>\<open>"."\<close> and \<^verbatim>\<open>","\<close>).
\<close>

definition py_replace :: "char \<Rightarrow> string \<Rightarrow> string \<Rightarrow> string" where
  "py_replace old new s = concat (map (\<lambda>c. if c = old then new else [c]) s)"

text \<open>\<^verbatim>\<open>sub in s\<close> on strings: \<^verbatim>\<open>sub\<close> occurs in \<^verbatim>\<open>s\<close> as a contiguous block.\<close>

fun py_in :: "string \<Rightarrow> string \<Rightarrow> bool" where
  "py_in sub [] = (sub = [])"
| "py_in sub (c # cs) = (prefix sub (c # cs) \<or> py_in sub cs)"

section \<open>The number parsers \<^verbatim>\<open>float()\<close> and \<^verbatim>\<open>int()\<close>\<close>

text \<open>
  Both builtins accept single underscores between digits: an underscore must follow a
  digit and be followed by one.  The scan keeps the previous character.
\<close>

fun strip_underscores_from :: "char option \<Rightarrow> string \<Rightarrow> string option" where
  "strip_underscores_from prev [] = (if prev = Some CHR ''_'' then None else Some [])"
| "strip_underscores_from prev (c # cs) =
     (if c = CHR ''_'' then
        (if (case prev of Some p \<Rightarrow> is_digit p | None \<Rightarrow> False)
         then strip_underscores_from (Some c) cs else None)
      else if prev = Some CHR ''_'' \<and> \<not> is_digit c then None
      else map_option ((#) c) (strip_underscores_from (Some c) cs))"

definition strip_underscores :: "string \<Rightarrow> string option" where
  "strip_underscores s = strip_underscores_from None s"

definition digits_value :: "string \<Rightarrow> nat" where
  "digits_value ds = foldl (\<lambda>a c. 10 * a + digit_val c) 0 ds"

fun parse_sign :: "string \<Rightarrow> bool \<times> string" where
  "parse_sign [] = (False, [])"
| "parse_sign (c # cs) =
     (if c = CHR ''-'' then (True, cs)
      else if c = CHR ''+'' then (False, cs)
      else (False, c # cs))"

definition pow10 :: "int \<Rightarrow> rat" where
  "pow10 e = (if 0 \<le> e then 10 ^ nat e else 1 / 10 ^ nat (- e))"

text \<open>What may follow the mantissa: nothing, or \<^verbatim>\<open>e\<close>, an optional sign and digits.\<close>

definition parse_exponent :: "string \<Rightarrow> int option" where
  "parse_exponent s =
     (case s of
        [] \<Rightarrow> Some 0
      | c # cs \<Rightarrow>
          if c = CHR ''e'' \<or> c = CHR ''E'' then
            (let (neg, ds) = parse_sign cs in
             if ds \<noteq> [] \<and> list_all is_digit ds
             then Some ((if neg then - 1 else 1) * int (digits_value ds))
             else None)
          else None)"

definition parse_decimal :: "string \<Rightarrow> rat option" where
  "parse_decimal s =
     (let ip = takeWhile is_digit s;
          r1 = dropWhile is_digit s;
          fp = (case r1 of [] \<Rightarrow> [] | c # t \<Rightarrow> if c = CHR ''.'' then takeWhile is_digit t else []);
          r2 = (case r1 of [] \<Rightarrow> [] | c # t \<Rightarrow> if c = CHR ''.'' then dropWhile is_digit t else r1)
      in if ip = [] \<and> fp = [] then None
         else map_option
           (\<lambda>e. of_nat (digits_value (ip @ fp)) * pow10 (e - int (length fp)))
           (parse_exponent r2))"

text \<open>
  \<^verbatim>\<open>float(s)\<close> on a string: \<^verbatim>\<open>None\<close> stands for the \<^verbatim>\<open>ValueError\<close>.  White space at
  both ends is ignored, the words \<^verbatim>\<open>inf\<close>, \<^verbatim>\<open>infinity\<close> and \<^verbatim>\<open>nan\<close> are read in any
  letter case, and a number is digits with an optional point and exponent.
\<close>

definition py_float :: "string \<Rightarrow> pyfloat option" where
  "py_float s =
     (case strip_underscores (py_strip s) of
        None \<Rightarrow> None
      | Some u \<Rightarrow>
          (let (neg, body) = parse_sign u in
           if py_lower body = ''inf'' \<or> py_lower body = ''infinity''
           then Some (if neg then NegInf else PosInf)
           else if py_lower body = ''nan'' then Some NaN
           else map_option (\<lambda>r. Finite (if neg then - r else r)) (parse_decimal body)))"

text \<open>
  \<^verbatim>\<open>int(s)\<close> on a string, base ten: an optional sign and digits.  The interpreter's
  limit on the number of digits of a converted string is not modelled.
\<close>

definition py_int :: "string \<Rightarrow> int option" where
  "py_int s =
     (let (neg, body) = parse_sign (py_strip s) in
      case strip_underscores body of
        None \<Rightarrow> None
      | Some ds \<Rightarrow>
          if ds \<noteq> [] \<and> list_all is_digit ds
          then Some ((if neg then - 1 else 1) * int (digits_value ds))
          else None)"

section \<open>Coercion of prices and quantities\<close>

text \<open>
  \<^verbatim>\<open>convert_price_to_float\<close> and \<^verbatim>\<open>convert_quantity_to_int\<close> of
  \<^verbatim>\<open>data_formatter.py\<close>.  The result is stored back into the product dictionary, so
  it is a value: a number, or \<^const>\<open>JNull\<close> for \<^verbatim>\<open>None\<close>.
\<close>

fun convert_price_to_float :: "json \<Rightarrow> json" where
  "convert_price_to_float (JStr price_str) =
     (if price_str = [] then JNull
      else (let cleaned_price =
                  py_replace (CHR '','') ''.'' (py_replace (CHR ''.'') [] (py_strip price_str))
            in case py_float cleaned_price of None \<Rightarrow> JNull | Some x \<Rightarrow> JFloat x))"
| "convert_price_to_float v = JNull"

fun convert_quantity_to_int :: "json \<Rightarrow> json" where
  "convert_quantity_to_int (JStr quantity_str) =
     (if quantity_str = [] then JNull
      else (let cleaned_quantity = py_strip quantity_str
            in case py_int cleaned_quantity of None \<Rightarrow> JNull | Some n \<Rightarrow> JInt n))"
| "convert_quantity_to_int v = JNull"

section \<open>Dictionaries, membership and subscripts\<close>

text \<open>
  \<^verbatim>\<open>"k" in x\<close>: a key test on a dictionary, a substring test on a string, an element test
  on a list, and a \<^verbatim>\<open>TypeError\<close> on anything else.
\<close>

fun py_contains :: "string \<Rightarrow> json \<Rightarrow> exn + bool" where
  "py_contains k (JObj kvs) = Inr (map_of kvs k \<noteq> None)"
| "py_contains k (JStr s) = Inr (py_in k s)"
| "py_contains k (JList xs) = Inr (List.member xs (JStr k))"
| "py_contains k v = Inl TypeError"

text \<open>\<^verbatim>\<open>x["k"]\<close>: only a dictionary can be subscripted by a string.\<close>

fun py_getitem :: "json \<Rightarrow> string \<Rightarrow> exn + json" where
  "py_getitem (JObj kvs) k = (case map_of kvs k of None \<Rightarrow> Inl KeyError | Some v \<Rightarrow> Inr v)"
| "py_getitem v k = Inl TypeError"

text \<open>
  What \<^verbatim>\<open>list.extend(x)\<close> appends: the elements of a list, the keys of a dictionary,
  the characters of a string; other values are not iterable.
\<close>

fun py_iter :: "json \<Rightarrow> exn + json list" where
  "py_iter (JList xs) = Inr xs"
| "py_iter (JObj kvs) = Inr (map (\<lambda>kv. JStr (fst kv)) kvs)"
| "py_iter (JStr s) = Inr (map (\<lambda>c. JStr [c]) s)"
| "py_iter v = Inl TypeError"

text \<open>
  A \<^verbatim>\<open>for\<close> loop that appends to a result list: the body yields \<open>Some y\<close> when it
  appends \<open>y\<close>, \<open>None\<close> when it goes on without appending (\<^verbatim>\<open>continue\<close>), and an
  exception of the body ends the loop.
\<close>

fun collect :: "('a \<Rightarrow> exn + 'b option) \<Rightarrow> 'a list \<Rightarrow> exn + 'b list" where
  "collect f [] = Inr []"
| "collect f (x # xs) =
     (case f x of
        Inl e \<Rightarrow> Inl e
      | Inr r \<Rightarrow>
          (case collect f xs of
             Inl e \<Rightarrow> Inl e
           | Inr rs \<Rightarrow> Inr (case r of None \<Rightarrow> rs | Some y \<Rightarrow> y # rs)))"

section \<open>Normalization of products and coverings\<close>

fun normalize_product_name :: "string \<Rightarrow> string list \<Rightarrow> string" where
  "normalize_product_name product_name [] = product_name"
| "normalize_product_name product_name (standard_name # standard_names) =
     (if py_in (py_lower standard_name) (py_lower product_name) then standard_name
      else normalize_product_name product_name standard_names)"

definition convert_field :: "string \<Rightarrow> (json \<Rightarrow> json) \<Rightarrow> (string \<times> json) list \<Rightarrow> (string \<times> json) list" where
  "convert_field k f d = (case map_of d k of None \<Rightarrow> d | Some v \<Rightarrow> AList.update k (f v) d)"

text \<open>\<^verbatim>\<open>normalize_product_data\<close>, on the entries of the product dictionary.\<close>

definition normalize_product_data :: "(string \<times> json) list \<Rightarrow> (string \<times> json) list" where
  "normalize_product_data product =
     convert_field ''quantity'' convert_quantity_to_int
       (convert_field ''discounted_price'' convert_price_to_float
          (convert_field ''full_price'' convert_price_to_float product))"

text \<open>
  The test \<^verbatim>\<open>any(standard_name.lower() in x["name"].lower() for standard_name in names)\<close>:
  the subscript and \<^verbatim>\<open>.lower()\<close> are evaluated once for every name tried, so an empty
  list of names never touches \<^verbatim>\<open>x["name"]\<close>.
\<close>

fun any_match :: "string list \<Rightarrow> json \<Rightarrow> exn + bool" where
  "any_match [] x = Inr False"
| "any_match (standard_name # names) x =
     (case py_getitem x ''name'' of
        Inl e \<Rightarrow> Inl e
      | Inr (JStr n) \<Rightarrow>
          if py_in (py_lower standard_name) (py_lower n) then Inr True else any_match names x
      | Inr v \<Rightarrow> Inl AttributeError)"

text \<open>The body of the loop of \<^verbatim>\<open>normalize_coverings\<close>.\<close>

definition normalize_covering :: "string list \<Rightarrow> json \<Rightarrow> exn + json option" where
  "normalize_covering coverings_list covering =
     (case py_contains ''name'' covering of
        Inl e \<Rightarrow> Inl e
      | Inr False \<Rightarrow> Inr None
      | Inr True \<Rightarrow>
          (case any_match coverings_list covering of
             Inl e \<Rightarrow> Inl e
           | Inr False \<Rightarrow> Inr None
           | Inr True \<Rightarrow>
               (case covering of
                  JObj kvs \<Rightarrow>
                    (case map_of kvs ''name'' of
                       Some (JStr n) \<Rightarrow>
                         Inr (Some (JObj (AList.update ''name''
                           (JStr (normalize_product_name n coverings_list)) kvs)))
                     | _ \<Rightarrow> Inl AttributeError)
                | _ \<Rightarrow> Inl AttributeError)))"

definition normalize_coverings :: "json list \<Rightarrow> string list \<Rightarrow> exn + json list" where
  "normalize_coverings coverings coverings_list =
     collect (normalize_covering coverings_list) coverings"

text \<open>
  The body of the inner loop of \<^verbatim>\<open>process_chunk_data\<close> (one product): the product is
  kept when a standard name matches, with its prices and quantity coerced, its name
  replaced and, where \<^verbatim>\<open>coverings\<close> is a list, its coverings normalized.
\<close>

definition process_product :: "string list \<Rightarrow> string list \<Rightarrow> json \<Rightarrow> exn + json option" where
  "process_product products_list coverings_list product =
     (case py_contains ''name'' product of
        Inl e \<Rightarrow> Inl e
      | Inr False \<Rightarrow> Inr None
      | Inr True \<Rightarrow>
          (case any_match products_list product of
             Inl e \<Rightarrow> Inl e
           | Inr False \<Rightarrow> Inr None
           | Inr True \<Rightarrow>
               (case product of
                  JObj kvs \<Rightarrow>
                    (case map_of kvs ''name'' of
                       Some (JStr n) \<Rightarrow>
                         (let normalized_product =
                                AList.update ''name'' (JStr (normalize_product_name n products_list))
                                  (normalize_product_data kvs)
                          in case map_of normalized_product ''coverings'' of
                               Some (JList coverings) \<Rightarrow>
                                 (case normalize_coverings coverings coverings_list of
                                    Inl e \<Rightarrow> Inl e
                                  | Inr cs \<Rightarrow>
                                      Inr (Some (JObj (AList.update ''coverings'' (JList cs)
                                        normalized_product))))
                             | _ \<Rightarrow> Inr (Some (JObj normalized_product)))
                     | _ \<Rightarrow> Inl AttributeError)
                | _ \<Rightarrow> Inl AttributeError)))"

text \<open>
  The body of the outer loop of \<^verbatim>\<open>process_chunk_data\<close> (one top-level record): a record
  without a list under \<^verbatim>\<open>products\<close> is passed over, and a record is appended only when
  some product of it was kept.
\<close>

definition process_item :: "string list \<Rightarrow> string list \<Rightarrow> json \<Rightarrow> exn + json option" where
  "process_item products_list coverings_list item =
     (case py_contains ''products'' item of
        Inl e \<Rightarrow> Inl e
      | Inr False \<Rightarrow> Inr None
      | Inr True \<Rightarrow>
          (case py_getitem item ''products'' of
             Inl e \<Rightarrow> Inl e
           | Inr (JList products) \<Rightarrow>
               (case collect (process_product products_list coverings_list) products of
                  Inl e \<Rightarrow> Inl e
                | Inr normalized_products \<Rightarrow>
                    if normalized_products = [] then Inr None
                    else (case item of
                            JObj kvs \<Rightarrow>
                              Inr (Some (JObj (AList.update ''products''
                                (JList normalized_products) kvs)))
                          | _ \<Rightarrow> Inl AttributeError))
           | Inr v \<Rightarrow> Inr None))"

text \<open>
  The first part of \<^verbatim>\<open>process_chunk_data\<close>, up to the client names: the list
  \<^verbatim>\<open>processed_items\<close> that the loop over \<^verbatim>\<open>chunk["data"]\<close> builds.
\<close>

definition processed_items_of :: "json \<Rightarrow> string list \<Rightarrow> string list \<Rightarrow> exn + json list" where
  "processed_items_of chunk products_list coverings_list =
     (case py_contains ''data'' chunk of
        Inl e \<Rightarrow> Inl e
      | Inr False \<Rightarrow> Inr []
      | Inr True \<Rightarrow>
          (case py_getitem chunk ''data'' of
             Inl e \<Rightarrow> Inl e
           | Inr (JList items) \<Rightarrow> collect (process_item products_list coverings_list) items
           | Inr v \<Rightarrow> Inr []))"

section \<open>Merging the records of one invoice\<close>

text \<open>
  The keys of \<^verbatim>\<open>invoice_dict\<close>.  Python compares the keys of a dictionary by value:
  \<^verbatim>\<open>1\<close>, \<^verbatim>\<open>1.0\<close> and \<^verbatim>\<open>True\<close> are one key, a string is equal to strings only, and a
  list or a dictionary cannot be a key at all (\<^verbatim>\<open>TypeError\<close>).
\<close>

datatype pykey = KNone | KStr string | KNum pyfloat

fun py_key :: "json \<Rightarrow> pykey option" where
  "py_key JNull = Some KNone"
| "py_key (JBool b) = Some (KNum (Finite (if b then 1 else 0)))"
| "py_key (JInt i) = Some (KNum (Finite (of_int i)))"
| "py_key (JFloat f) = Some (KNum f)"
| "py_key (JStr s) = Some (KStr s)"
| "py_key (JList xs) = None"
| "py_key (JObj kvs) = None"

text \<open>\<^verbatim>\<open>item.get("invoice_number")\<close> on the entries of a dictionary.\<close>

definition invoice_number_of :: "(string \<times> json) list \<Rightarrow> json" where
  "invoice_number_of kvs = (case map_of kvs ''invoice_number'' of None \<Rightarrow> JNull | Some v \<Rightarrow> v)"

text \<open>
  The body of the loop of \<^verbatim>\<open>merge_items_by_invoice\<close>.  The dictionary holds, under each
  key, the (shallow) copy of the first record seen; \<^verbatim>\<open>extend\<close> grows the list that this
  copy holds under \<^verbatim>\<open>products\<close>.  The subscripts are evaluated in the order of the
  source line: the kept record's \<^verbatim>\<open>products\<close>, its \<^verbatim>\<open>extend\<close>, then \<^verbatim>\<open>item["products"]\<close>.
\<close>

definition merge_item :: "(pykey \<times> json) list \<Rightarrow> json \<Rightarrow> exn + (pykey \<times> json) list" where
  "merge_item invoice_dict item =
     (case item of
        JObj kvs \<Rightarrow>
          (let invoice_number = invoice_number_of kvs in
           if \<not> py_truthy invoice_number then Inr invoice_dict
           else
             (case py_key invoice_number of
                None \<Rightarrow> Inl TypeError
              | Some k \<Rightarrow>
                  (case map_of invoice_dict k of
                     None \<Rightarrow> Inr (invoice_dict @ [(k, JObj kvs)])
                   | Some kept \<Rightarrow>
                       (case py_getitem kept ''products'' of
                          Inl e \<Rightarrow> Inl e
                        | Inr (JList ps) \<Rightarrow>
                            (case py_getitem item ''products'' of
                               Inl e \<Rightarrow> Inl e
                             | Inr v \<Rightarrow>
                                 (case py_iter v of
                                    Inl e \<Rightarrow> Inl e
                                  | Inr qs \<Rightarrow>
                                      (case kept of
                                         JObj d \<Rightarrow>
                                           Inr (AList.update k
                                             (JObj (AList.update ''products'' (JList (ps @ qs)) d))
                                             invoice_dict)
                                       | _ \<Rightarrow> Inl TypeError)))
                        | Inr w \<Rightarrow> Inl AttributeError))))
      | _ \<Rightarrow> Inl AttributeError)"

fun merge_loop :: "(pykey \<times> json) list \<Rightarrow> json list \<Rightarrow> exn + (pykey \<times> json) list" where
  "merge_loop invoice_dict [] = Inr invoice_dict"
| "merge_loop invoice_dict (item # items) =
     (case merge_item invoice_dict item of
        Inl e \<Rightarrow> Inl e
      | Inr d \<Rightarrow> merge_loop d items)"

definition merge_items_by_invoice :: "json list \<Rightarrow> exn + json list" where
  "merge_items_by_invoice items =
     (case merge_loop [] items of Inl e \<Rightarrow> Inl e | Inr invoice_dict \<Rightarrow> Inr (map snd invoice_dict))"

section \<open>Pages and chunks\<close>

text \<open>\<^verbatim>\<open>range(start, stop, step)\<close> for a positive step, as the chunk loop uses it.\<close>

function py_range :: "nat \<Rightarrow> nat \<Rightarrow> nat \<Rightarrow> nat list" where
  "py_range i stop step = (if 0 < step \<and> i < stop then i # py_range (i + step) stop step else [])"
  by pat_completeness auto
termination
  by (relation "measure (\<lambda>(i, stop, step). stop - i)") auto

declare py_range.simps [simp del]

text \<open>\<^verbatim>\<open>str(n)\<close> of a number that is not negative: its decimal digits.\<close>

function py_str :: "nat \<Rightarrow> string" where
  "py_str n = (if n < 10 then [char_of (48 + n)] else py_str (n div 10) @ [char_of (48 + n mod 10)])"
  by pat_completeness auto
termination
  by (relation "measure (\<lambda>n. n)") auto

declare py_str.simps [simp del]

fun py_join :: "string \<Rightarrow> string list \<Rightarrow> string" where
  "py_join sep [] = []"
| "py_join sep [x] = x"
| "py_join sep (x # y # ys) = x @ sep @ py_join sep (y # ys)"

definition PAGES_PER_CHUNK :: nat where
  "PAGES_PER_CHUNK = 10"

definition newline :: string where
  "newline = [CHR 0x0A]"

text \<open>The label \<^verbatim>\<open>f"{i+1}-{min(i+PAGES_PER_CHUNK, len(pages_text))}"\<close>.\<close>

definition chunk_range :: "nat \<Rightarrow> nat \<Rightarrow> string" where
  "chunk_range i n = py_str (i + 1) @ ''-'' @ py_str (min (i + PAGES_PER_CHUNK) n)"

text \<open>
  What the chunk loop of \<^verbatim>\<open>extract_invoice_data\<close> iterates over: for every start index
  of the range, the label of the chunk and its text, the pages
  \<^verbatim>\<open>pages_text[i : i + PAGES_PER_CHUNK]\<close> joined by newlines.
\<close>

definition page_chunks :: "string list \<Rightarrow> (string \<times> string) list" where
  "page_chunks pages_text =
     map (\<lambda>i. (chunk_range i (length pages_text),
                py_join newline (take PAGES_PER_CHUNK (drop i pages_text))))
       (py_range 0 (length pages_text) PAGES_PER_CHUNK)"

section \<open>The extraction client\<close>

text \<open>
  What lies outside the repository is a parameter of the model: the environment
  variable, the provider's \<^verbatim>\<open>generate_content\<close> (which may answer differently each time,
  so it threads a state), \<^verbatim>\<open>str(e)\<close> of an exception, \<^verbatim>\<open>json.loads\<close> and \<^verbatim>\<open>json.dumps\<close>.
\<close>

record response =
  block_reason :: "string option"
  response_text :: "exn + string"

record 's env =
  google_api_key :: "string option"
  generate_content :: "'s \<Rightarrow> string \<Rightarrow> (exn + response) \<times> 's"
  exn_str :: "exn \<Rightarrow> string"
  loads :: "string \<Rightarrow> exn + json"
  dumps :: "json \<Rightarrow> string"

text \<open>
  The \<^verbatim>\<open>try\<close> block of \<^verbatim>\<open>call_llm\<close> once the provider has answered: a block reason
  raises an \<^verbatim>\<open>HTTPException\<close> inside the block, otherwise the text is read (which may
  raise as well).
\<close>

definition read_response :: "response \<Rightarrow> exn + string" where
  "read_response r =
     (case block_reason r of
        Some reason \<Rightarrow> Inl (HTTPException 500 (''Request was blocked: '' @ reason))
      | None \<Rightarrow> response_text r)"

text \<open>
  \<^verbatim>\<open>call_llm\<close>: the key is tested before the \<^verbatim>\<open>try\<close>; \<^verbatim>\<open>except Exception\<close> then catches
  whatever the block raises and raises its own exception from \<^verbatim>\<open>str(e)\<close>.
\<close>

definition call_llm :: "'s env \<Rightarrow> 's \<Rightarrow> string \<Rightarrow> (exn + string) \<times> 's" where
  "call_llm env s prompt =
     (if google_api_key env = None \<or> google_api_key env = Some [] then
        (Inl (HTTPException 500
           ''GOOGLE_API_KEY not found in environment variables. Please set it in your .env file.''), s)
      else
        (let (answer, s') = generate_content env s prompt;
             body = (case answer of Inl e \<Rightarrow> Inl e | Inr r \<Rightarrow> read_response r)
         in case body of
              Inl e \<Rightarrow>
                (Inl (HTTPException 500 (''Error during Gemini API call: '' @ exn_str env e)), s')
            | Inr t \<Rightarrow> (Inr t, s')))"

section \<open>Client names, the chunks of a run and the whole pipeline\<close>

text \<open>The three literal parts of the prompt that \<^verbatim>\<open>process_chunk_data\<close> builds.\<close>

definition client_prompt_head :: string where
  "client_prompt_head =
     newline @
     ''        You are an assistant specialized in normalizing client names. Your task is to match and replace client names with their standardized versions from a reference list.'' @
     newline @
     newline @
     ''        REFERENCE LIST:'' @
     newline @
     ''        ''"

definition client_prompt_rules :: string where
  "client_prompt_rules =
     newline @
     newline @
     ''        RULES:'' @
     newline @
     ''        1. Match the input client name with the most similar name in the reference list'' @
     newline @
     ''        2. If a match is found, replace the name with the standardized version and include its ID'' @
     newline @
     ''        3. If no match is found, keep the original name'' @
     newline @
     ''        4. Preserve all other fields in the input data'' @
     newline @
     ''        5. Return the data in the same format as the input'' @
     newline @
     newline @
     ''        INPUT DATA:'' @
     newline @
     ''        ''"

definition client_prompt_tail :: string where
  "client_prompt_tail =
     newline @
     newline @
     ''        Return the normalized data in JSON format.'' @
     newline @
     ''        ''"

definition client_prompt :: "'s env \<Rightarrow> json \<Rightarrow> json list \<Rightarrow> string" where
  "client_prompt env clients_list processed_items =
     client_prompt_head @ dumps env clients_list @ client_prompt_rules @
     dumps env (JList processed_items) @ client_prompt_tail"

text \<open>
  \<^verbatim>\<open>process_chunk_data\<close>: the records that keep a product, then, only when there is
  such a record, the second call of the model, whose parsed answer replaces the list.
  \<^verbatim>\<open>except Exception\<close> turns a failure of the call or of \<^verbatim>\<open>json.loads\<close> into an
  \<^verbatim>\<open>HTTPException\<close>.
\<close>

definition process_chunk_data ::
  "'s env \<Rightarrow> json \<Rightarrow> string list \<Rightarrow> string list \<Rightarrow> json \<Rightarrow> 's \<Rightarrow> (exn + json) \<times> 's" where
  "process_chunk_data env chunk products_list coverings_list clients_list s =
     (case processed_items_of chunk products_list coverings_list of
        Inl e \<Rightarrow> (Inl e, s)
      | Inr processed_items \<Rightarrow>
          if processed_items = [] then (Inr (JList []), s)
          else
            (let (answer, s') = call_llm env s (client_prompt env clients_list processed_items);
                 parsed = (case answer of Inl e \<Rightarrow> Inl e | Inr t \<Rightarrow> loads env t)
             in case parsed of
                  Inl e \<Rightarrow>
                    (Inl (HTTPException 500
                       (''Error during client names normalization in chunk: '' @ exn_str env e)), s')
                | Inr v \<Rightarrow> (Inr v, s')))"

text \<open>
  The loop of \<^verbatim>\<open>normalize_results\<close>: \<^verbatim>\<open>processed_items.extend(process_chunk_data(...))\<close>
  for every chunk in order.  Nothing catches an exception here.
\<close>

fun process_chunks ::
  "'s env \<Rightarrow> string list \<Rightarrow> string list \<Rightarrow> json \<Rightarrow> json list \<Rightarrow> 's \<Rightarrow> (exn + json list) \<times> 's" where
  "process_chunks env products_list coverings_list clients_list [] s = (Inr [], s)"
| "process_chunks env products_list coverings_list clients_list (chunk # chunks) s =
     (case process_chunk_data env chunk products_list coverings_list clients_list s of
        (Inl e, s') \<Rightarrow> (Inl e, s')
      | (Inr v, s') \<Rightarrow>
          (case py_iter v of
             Inl e \<Rightarrow> (Inl e, s')
           | Inr items \<Rightarrow>
               (case process_chunks env products_list coverings_list clients_list chunks s' of
                  (Inl e, s'') \<Rightarrow> (Inl e, s'')
                | (Inr others, s'') \<Rightarrow> (Inr (items @ others), s''))))"

definition normalize_results ::
  "'s env \<Rightarrow> json list \<Rightarrow> string list \<Rightarrow> string list \<Rightarrow> json \<Rightarrow> 's \<Rightarrow> (exn + json list) \<times> 's" where
  "normalize_results env chunks products_list coverings_list clients_list s =
     (case process_chunks env products_list coverings_list clients_list chunks s of
        (Inl e, s') \<Rightarrow> (Inl e, s')
      | (Inr processed_items, s') \<Rightarrow> (merge_items_by_invoice processed_items, s'))"

text \<open>The prompt of the first call for a chunk.\<close>

definition chunk_prompt :: "string \<Rightarrow> string \<Rightarrow> string \<Rightarrow> string" where
  "chunk_prompt main_prompt current_chunk_range chunk_text =
     main_prompt @ newline @ newline @
     ''Extract informations from the following invoices text (pages '' @ current_chunk_range @
     ''): '' @ newline @ ''---'' @ newline @ chunk_text @ newline @ ''---''"

text \<open>
  The chunk loop of \<^verbatim>\<open>extract_invoice_data\<close>, over the labelled chunks in order.  An
  exception of \<^verbatim>\<open>call_llm\<close> passes through, an empty answer and a \<^verbatim>\<open>JSONDecodeError\<close>
  raise an \<^verbatim>\<open>HTTPException\<close> that names the chunk's pages, and a parsed answer is
  appended to \<^verbatim>\<open>result["raw_data"]["chunks"]\<close>.
\<close>

fun extract_chunks :: "'s env \<Rightarrow> string \<Rightarrow> (string \<times> string) list \<Rightarrow> 's \<Rightarrow> (exn + json list) \<times> 's" where
  "extract_chunks env main_prompt [] s = (Inr [], s)"
| "extract_chunks env main_prompt ((current_chunk_range, chunk_text) # rest) s =
     (case call_llm env s (chunk_prompt main_prompt current_chunk_range chunk_text) of
        (Inl e, s') \<Rightarrow> (Inl e, s')
      | (Inr initial_json, s') \<Rightarrow>
          if initial_json = [] then
            (Inl (HTTPException 500
               (''Error: No result (raw invoice info) from Gemini API for pages '' @
                current_chunk_range)), s')
          else
            (case loads env initial_json of
               Inl (JSONDecodeError msg) \<Rightarrow>
                 (Inl (HTTPException 500
                    (''Error parsing JSON response for pages '' @ current_chunk_range @ '': '' @
                     exn_str env (JSONDecodeError msg))), s')
             | Inl e \<Rightarrow> (Inl e, s')
             | Inr chunk_result \<Rightarrow>
                 (case extract_chunks env main_prompt rest s' of
                    (Inl e, s'') \<Rightarrow> (Inl e, s'')
                  | (Inr chunks, s'') \<Rightarrow>
                      (Inr (JObj [(''pages'', JStr current_chunk_range), (''data'', chunk_result)]
                            # chunks), s''))))"

text \<open>
  The registry \<^verbatim>\<open>COMPANIES_INFO\<close> is a parameter: its reference lists are not among the
  sources.  So are the file name and the results of \<^verbatim>\<open>fetch_clients_from_crm\<close> and
  \<^verbatim>\<open>get_pdf_text\<close>, which are awaited in this order.
\<close>

record company_config =
  NAME :: string
  MAIN_PROMPT :: string
  PRODUCTS_LIST :: "string list"
  COVERINGS_LIST :: "string list"

record document =
  filename :: string
  company_id :: string
  company_name :: string
  raw_chunks :: "json list"
  total_chunks :: nat
  total_pages :: nat
  normalized_data :: "json list"

definition extract_invoice_data ::
  "'s env \<Rightarrow> (string \<times> company_config) list \<Rightarrow> string \<Rightarrow> string \<Rightarrow> exn + json \<Rightarrow>
   exn + string list \<Rightarrow> 's \<Rightarrow> (exn + document) \<times> 's" where
  "extract_invoice_data env COMPANIES_INFO file_name companyId fetched_clients pdf_text s =
     (case (if companyId = [] then None else map_of COMPANIES_INFO companyId) of
        None \<Rightarrow> (Inl (HTTPException 400 ''Error: A valid company ID is required''), s)
      | Some config \<Rightarrow>
          (case fetched_clients of
             Inl e \<Rightarrow> (Inl e, s)
           | Inr clients_list \<Rightarrow>
               (case pdf_text of
                  Inl e \<Rightarrow> (Inl e, s)
                | Inr pages_text \<Rightarrow>
                    (case extract_chunks env (MAIN_PROMPT config) (page_chunks pages_text) s of
                       (Inl e, s1) \<Rightarrow> (Inl e, s1)
                     | (Inr chunks, s1) \<Rightarrow>
                         if chunks = [] then
                           (Inl (HTTPException 500
                              ''Error: No valid results from any chunk processing''), s1)
                         else
                           (case normalize_results env chunks (PRODUCTS_LIST config)
                                   (COVERINGS_LIST config) clients_list s1 of
                              (Inl e, s2) \<Rightarrow> (Inl e, s2)
                            | (Inr final_result, s2) \<Rightarrow>
                                (Inr \<lparr>filename = file_name, company_id = companyId,
                                      company_name = NAME config, raw_chunks = chunks,
                                      total_chunks = length chunks,
                                      total_pages = length pages_text,
                                      normalized_data = final_result\<rparr>, s2))))))"

section \<open>Vocabulary of the statements\<close>

text \<open>
  The notions below belong to the statements, not to the program: the string under
  \<^verbatim>\<open>name\<close> of a dictionary, the first standard name in list order whose lower-case form
  occurs in the lower-case form of a name, and the shapes of input on which the loops
  raise no exception (a name, where present, is a string).
\<close>

definition name_of :: "json \<Rightarrow> string option" where
  "name_of v = (case v of
      JObj kvs \<Rightarrow> (case map_of kvs ''name'' of Some (JStr n) \<Rightarrow> Some n | _ \<Rightarrow> None)
    | _ \<Rightarrow> None)"

definition canonical :: "string list \<Rightarrow> string \<Rightarrow> string option" where
  "canonical names n = find (\<lambda>c. sublist (py_lower c) (py_lower n)) names"

fun named_object :: "json \<Rightarrow> bool" where
  "named_object (JObj kvs) =
     (case map_of kvs ''name'' of None \<Rightarrow> True | Some (JStr n) \<Rightarrow> True | Some v \<Rightarrow> False)"
| "named_object v = False"

fun wf_product :: "json \<Rightarrow> bool" where
  "wf_product (JObj kvs) =
     (named_object (JObj kvs) \<and>
      (case map_of kvs ''coverings'' of
         Some (JList cs) \<Rightarrow> list_all named_object cs
       | _ \<Rightarrow> True))"
| "wf_product v = False"

definition canonical_name :: "string list \<Rightarrow> json \<Rightarrow> string option" where
  "canonical_name names v = (case name_of v of None \<Rightarrow> None | Some n \<Rightarrow> canonical names n)"


fun wf_item :: "json \<Rightarrow> bool" where
  "wf_item (JObj kvs) =
     (case map_of kvs ''products'' of
        Some (JList ps) \<Rightarrow> list_all wf_product ps
      | _ \<Rightarrow> True)"
| "wf_item v = False"

definition kept_record :: "string list \<Rightarrow> string list \<Rightarrow> json \<Rightarrow> json option" where
  "kept_record products_list coverings_list item =
     (case item of
        JObj kvs \<Rightarrow>
          (case map_of kvs ''products'' of
             Some (JList ps) \<Rightarrow>
               (case collect (process_product products_list coverings_list) ps of
                  Inr nps \<Rightarrow>
                    if nps = [] then None
                    else Some (JObj (AList.update ''products'' (JList nps) kvs))
                | Inl e \<Rightarrow> None)
           | _ \<Rightarrow> None)
      | _ \<Rightarrow> None)"

text \<open>Example data, used to run the statements on concrete input.\<close>

definition example_coverings_list :: "string list" where
  "example_coverings_list = [''DURIAN'', ''PIANTA MAIORCA'']"

definition example_products_list :: "string list" where
  "example_products_list = [''Example Product'']"

definition example_coverings :: "json list" where
  "example_coverings =
     [JObj [(''name'', JStr ''Rivestimento DURIAN extra''), (''code'', JStr ''003'')],
      JObj [(''name'', JStr ''Unknown Fabric'')]]"

definition example_products :: "json list" where
  "example_products =
     [JObj [(''name'', JStr ''COD123 example product PZ''), (''quantity'', JStr ''1''),
            (''coverings'', JList example_coverings)],
      JObj [(''name'', JStr ''Another'')]]"

definition example_chunk :: "(string \<times> json) list" where
  "example_chunk =
     [(''pages'', JStr ''1-10''),
      (''data'', JList
         [JObj [(''name'', JStr ''Client 1''), (''invoice_number'', JStr ''123/2024''),
                (''products'', JList example_products)],
          JObj [(''name'', JStr ''Client 2''), (''invoice_number'', JStr ''124/2024'')],
          JObj [(''name'', JStr ''Client 3''), (''products'', JStr ''none'')],
          JObj [(''name'', JStr ''Client 4''),
                (''products'', JList [JObj [(''name'', JStr ''Another'')]])]])]"

definition unmatched_chunk :: json where
  "unmatched_chunk =
     JObj [(''pages'', JStr ''1-10''),
           (''data'', JList
              [JObj [(''name'', JStr ''Client 4''),
                     (''products'', JList [JObj [(''name'', JStr ''Another'')]])]])]"

definition example_env :: "string \<Rightarrow> exn + string \<Rightarrow> nat env" where
  "example_env first second =
     \<lparr>google_api_key = Some ''key'',
      generate_content =
        (\<lambda>s prompt.
           (if s = 0 then Inr \<lparr>block_reason = None, response_text = Inr first\<rparr>
            else (case second of
                    Inl e \<Rightarrow> Inl e
                  | Inr t \<Rightarrow> Inr \<lparr>block_reason = None, response_text = Inr t\<rparr>),
            Suc s)),
      exn_str =
        (\<lambda>e. case e of
                HTTPException c d \<Rightarrow> py_str c @ '': '' @ d
              | JSONDecodeError m \<Rightarrow> m
              | OtherError m \<Rightarrow> m
              | _ \<Rightarrow> []),
      loads =
        (\<lambda>t. if t = ''[]'' then Inr (JList [])
             else if t = ''records'' then
               Inr (JList [JObj [(''name'', JStr ''Client 1''),
                                 (''invoice_number'', JStr ''123/2024''),
                                 (''products'', JList example_products)]])
             else Inl (JSONDecodeError ''Expecting value'')),
      dumps = (\<lambda>v. [])\<rparr>"

definition example_registry :: "(string \<times> company_config) list" where
  "example_registry =
     [(''86e676e3-4cc0-4725-b12c-358d3b4b3e43'',
       \<lparr>NAME = ''Le Comfort'', MAIN_PROMPT = ''Extract.'',
        PRODUCTS_LIST = example_products_list, COVERINGS_LIST = example_coverings_list\<rparr>)]"

definition example_config :: company_config where
  "example_config =
     \<lparr>NAME = ''Le Comfort'', MAIN_PROMPT = ''Extract.'',
      PRODUCTS_LIST = example_products_list, COVERINGS_LIST = example_coverings_list\<rparr>"

definition example_raw_chunk :: json where
  "example_raw_chunk =
     JObj [(''pages'', JStr ''1-1''),
           (''data'', JList [JObj [(''name'', JStr ''Client 1''),
                                   (''invoice_number'', JStr ''123/2024''),
                                   (''products'', JList example_products)]])]"

definition example_processed_items :: "json list" where
  "example_processed_items =
     [JObj [(''name'', JStr ''Client 1''), (''invoice_number'', JStr ''123/2024''),
            (''products'', JList
               [JObj [(''name'', JStr ''Example Product''), (''quantity'', JInt 1),
                      (''coverings'', JList
                         [JObj [(''name'', JStr ''DURIAN''), (''code'', JStr ''003'')]])]])]]"

section \<open>Properties of the coercions\<close>



lemma py_strip_Nil: "py_strip [] = []"
  by (simp add: py_strip_def)


lemma py_int_Nil: "py_int [] = None"
  by (simp add: py_int_def py_strip_def strip_underscores_def)


text \<open>
  Claim C6.  \<^verbatim>\<open>convert_quantity_to_int\<close> takes the white space off both ends and parses
  what is left as an integer; when the parse fails the result is \<^verbatim>\<open>None\<close>, and every
  result is \<^verbatim>\<open>None\<close> or an integer.  \<^verbatim>\<open>"3"\<close> gives 3, and both \<^verbatim>\<open>"3.5"\<close> and \<^verbatim>\<open>""\<close>
  give \<^verbatim>\<open>None\<close>.
\<close>

theorem convert_quantity_to_int_spec:
  "convert_quantity_to_int (JStr ''3'') = JInt 3
   \<and> convert_quantity_to_int (JStr ''3.5'') = JNull
   \<and> convert_quantity_to_int (JStr []) = JNull
   \<and> (\<forall>s. convert_quantity_to_int (JStr s) =
         (case py_int (py_strip s) of None \<Rightarrow> JNull | Some n \<Rightarrow> JInt n))
   \<and> (\<forall>v. convert_quantity_to_int v = JNull \<or> (\<exists>n. convert_quantity_to_int v = JInt n))"
proof -
  have ex1: "convert_quantity_to_int (JStr ''3'') = JInt 3"
    by code_simp
  have ex2: "convert_quantity_to_int (JStr ''3.5'') = JNull"
    by code_simp
  have ex3: "convert_quantity_to_int (JStr []) = JNull"
    by simp
  have gen: "convert_quantity_to_int (JStr s) =
         (case py_int (py_strip s) of None \<Rightarrow> JNull | Some n \<Rightarrow> JInt n)" for s
    by (cases "s = []") (simp_all add: py_strip_Nil py_int_Nil)
  have tot: "convert_quantity_to_int v = JNull \<or> (\<exists>n. convert_quantity_to_int v = JInt n)" for v
    by (cases v) (auto split: option.splits)
  show ?thesis by (intro conjI allI ex1 ex2 ex3 gen tot)
qed

section \<open>Filtering and renaming by standard names\<close>

lemma py_in_sublist: "py_in sub s = sublist sub s"
proof (induction s)
  case Nil
  show ?case by (cases sub) simp_all
next
  case (Cons c cs)
  show ?case
  proof (cases sub)
    case Nil
    then show ?thesis by simp
  next
    case (Cons x xs)
    with Cons.IH show ?thesis by (simp add: sublist_Cons_right)
  qed
qed

lemma any_match_named:
  assumes "map_of kvs ''name'' = Some (JStr n)"
  shows "any_match names (JObj kvs) = Inr (canonical names n \<noteq> None)"
  using assms by (induction names) (auto simp: canonical_def py_in_sublist)

lemma normalize_product_name_canonical:
  "normalize_product_name n names = (case canonical names n of None \<Rightarrow> n | Some c \<Rightarrow> c)"
  by (induction names) (auto simp: canonical_def py_in_sublist)

lemma collect_map_filter:
  assumes "\<forall>x\<in>set xs. f x = Inr (g x)"
  shows "collect f xs = Inr (List.map_filter g xs)"
  using assms by (induction xs) (auto simp: List.map_filter_simps split: option.splits)

lemma normalize_covering_named:
  assumes "named_object v"
  shows "normalize_covering names v =
     Inr (case v of JObj kvs \<Rightarrow>
            (case name_of v of
               None \<Rightarrow> None
             | Some n \<Rightarrow>
                 (case canonical names n of
                    None \<Rightarrow> None
                  | Some c \<Rightarrow> Some (JObj (AList.update ''name'' (JStr c) kvs)))))"
proof (cases v)
  case (JObj kvs)
  show ?thesis
  proof (cases "map_of kvs ''name''")
    case None
    with JObj show ?thesis by (simp add: normalize_covering_def name_of_def)
  next
    case (Some w)
    with assms JObj obtain n where n: "w = JStr n" by (cases w) auto
    from Some n JObj show ?thesis
      by (auto simp: normalize_covering_def name_of_def any_match_named
          normalize_product_name_canonical split: option.splits)
  qed
qed (use assms in auto)

lemma map_of_convert_field_other:
  "k' \<noteq> k \<Longrightarrow> map_of (convert_field k f d) k' = map_of d k'"
  by (simp add: convert_field_def update_conv' split: option.splits)

lemma map_of_normalize_product_data_coverings:
  "map_of (normalize_product_data kvs) ''coverings'' = map_of kvs ''coverings''"
  by (simp add: normalize_product_data_def map_of_convert_field_other)

lemma normalize_coverings_named:
  assumes "list_all named_object cs"
  shows "\<exists>out. normalize_coverings cs names = Inr out"
proof -
  have "\<forall>v\<in>set cs. \<exists>r. normalize_covering names v = Inr r"
  proof
    fix v assume "v \<in> set cs"
    with assms have "named_object v" by (simp add: list_all_iff)
    then show "\<exists>r. normalize_covering names v = Inr r"
      using normalize_covering_named by blast
  qed
  then have "\<exists>out. collect (normalize_covering names) cs = Inr out"
    by (induction cs) (auto split: sum.splits)
  then show ?thesis by (simp add: normalize_coverings_def)
qed

lemma process_product_wf:
  assumes "wf_product v"
  shows "\<exists>r. process_product pl cl v = Inr r \<and>
             map_option name_of r = map_option Some (canonical_name pl v)"
proof (cases v)
  case (JObj kvs)
  show ?thesis
  proof (cases "map_of kvs ''name''")
    case None
    with JObj show ?thesis
      by (simp add: process_product_def name_of_def canonical_name_def)
  next
    case (Some w)
    with assms JObj obtain n where n: "w = JStr n" by (cases w) auto
    show ?thesis
    proof (cases "canonical pl n")
      case None
      with Some n JObj show ?thesis
        by (simp add: process_product_def name_of_def canonical_name_def any_match_named)
    next
      case (Some c)
      let ?np = "AList.update ''name'' (JStr c) (normalize_product_data kvs)"
      have cov: "map_of ?np ''coverings'' = map_of kvs ''coverings''"
        by (simp add: update_conv' map_of_normalize_product_data_coverings)
      have nm: "map_of ?np ''name'' = Some (JStr c)"
        by (simp add: update_conv')
      have step: "process_product pl cl v =
          (case map_of kvs ''coverings'' of
             Some (JList coverings) \<Rightarrow>
               (case normalize_coverings coverings cl of
                  Inl e \<Rightarrow> Inl e
                | Inr cs \<Rightarrow> Inr (Some (JObj (AList.update ''coverings'' (JList cs) ?np))))
           | _ \<Rightarrow> Inr (Some (JObj ?np)))"
        using \<open>map_of kvs ''name'' = Some w\<close> n JObj Some
        by (simp add: process_product_def any_match_named normalize_product_name_canonical cov
            Let_def)
      have cn: "canonical_name pl v = Some c"
        using \<open>map_of kvs ''name'' = Some w\<close> n JObj Some
        by (simp add: canonical_name_def name_of_def)
      show ?thesis
      proof (cases "map_of kvs ''coverings''")
        case None
        with step cn nm show ?thesis by (simp add: name_of_def)
      next
        case (Some u)
        show ?thesis
        proof (cases u)
          case (JList coverings)
          with assms JObj Some have "list_all named_object coverings" by simp
          then obtain out where "normalize_coverings coverings cl = Inr out"
            using normalize_coverings_named by blast
          with step cn nm Some JList show ?thesis
            by (simp add: name_of_def update_conv')
        qed (use step cn nm Some in \<open>simp_all add: name_of_def\<close>)
      qed
    qed
  qed
qed (use assms in auto)

lemma collect_process_product_wf:
  assumes "list_all wf_product ps"
  shows "\<exists>out. collect (process_product pl cl) ps = Inr out \<and>
               map name_of out = map Some (List.map_filter (canonical_name pl) ps)"
  using assms
proof (induction ps)
  case Nil
  show ?case by (simp add: List.map_filter_simps)
next
  case (Cons p ps)
  then obtain out where out: "collect (process_product pl cl) ps = Inr out"
      "map name_of out = map Some (List.map_filter (canonical_name pl) ps)"
    by auto
  from Cons.prems have "wf_product p" by simp
  then obtain r where r: "process_product pl cl p = Inr r"
      "map_option name_of r = map_option Some (canonical_name pl p)"
    using process_product_wf by blast
  show ?case
    using out r by (cases r; cases "canonical_name pl p") (auto simp: List.map_filter_simps)
qed








section \<open>Records kept by a chunk\<close>

lemma process_item_skip:
  assumes "case map_of kvs ''products'' of Some (JList ps) \<Rightarrow> False | _ \<Rightarrow> True"
  shows "process_item products_list coverings_list (JObj kvs) = Inr None"
proof (cases "map_of kvs ''products''")
  case None
  then show ?thesis by (simp add: process_item_def)
next
  case (Some v)
  with assms show ?thesis by (cases v) (simp_all add: process_item_def)
qed

lemma process_item_wf:
  assumes "wf_item item"
  shows "process_item products_list coverings_list item =
           Inr (kept_record products_list coverings_list item)"
proof (cases item)
  case (JObj kvs)
  show ?thesis
  proof (cases "map_of kvs ''products''")
    case None
    with JObj show ?thesis by (simp add: process_item_def kept_record_def)
  next
    case (Some v)
    show ?thesis
    proof (cases v)
      case (JList ps)
      with assms JObj Some have "list_all wf_product ps" by simp
      then obtain out where "collect (process_product products_list coverings_list) ps = Inr out"
        using collect_process_product_wf by blast
      with JObj Some JList show ?thesis by (simp add: process_item_def kept_record_def)
    qed (use JObj Some in \<open>simp_all add: process_item_def kept_record_def\<close>)
  qed
qed (use assms in auto)

text \<open>
  Claim C7.  A top-level record whose \<^verbatim>\<open>products\<close> is missing or is not a list is passed
  over without an exception.  On a chunk whose records are dictionaries with well-shaped
  products, the list \<^verbatim>\<open>processed_items\<close> holds, in order, exactly the records that keep
  at least one product, each with its \<^verbatim>\<open>products\<close> replaced by the kept ones; a record
  that keeps none is left out.
\<close>

theorem process_chunk_records_spec:
  "(\<forall>kvs. (case map_of kvs ''products'' of Some (JList ps) \<Rightarrow> False | _ \<Rightarrow> True) \<longrightarrow>
        process_item products_list coverings_list (JObj kvs) = Inr None)
   \<and> (map_of chunk ''data'' = Some (JList items) \<and> list_all wf_item items \<longrightarrow>
        processed_items_of (JObj chunk) products_list coverings_list =
          Inr (List.map_filter (kept_record products_list coverings_list) items))"
proof (intro conjI allI impI)
  fix kvs
  assume "case map_of kvs ''products'' of Some (JList ps) \<Rightarrow> False | _ \<Rightarrow> True"
  then show "process_item products_list coverings_list (JObj kvs) = Inr None"
    by (rule process_item_skip)
next
  assume a: "map_of chunk ''data'' = Some (JList items) \<and> list_all wf_item items"
  then have "\<forall>x\<in>set items. process_item products_list coverings_list x =
      Inr (kept_record products_list coverings_list x)"
    using process_item_wf by (simp add: list_all_iff)
  then have "collect (process_item products_list coverings_list) items =
      Inr (List.map_filter (kept_record products_list coverings_list) items)"
    by (rule collect_map_filter)
  with a show "processed_items_of (JObj chunk) products_list coverings_list =
          Inr (List.map_filter (kept_record products_list coverings_list) items)"
    by (simp add: processed_items_of_def)
qed

lemma ex_items:
  "map_of example_chunk ''data'' = Some (JList
         [JObj [(''name'', JStr ''Client 1''), (''invoice_number'', JStr ''123/2024''),
                (''products'', JList example_products)],
          JObj [(''name'', JStr ''Client 2''), (''invoice_number'', JStr ''124/2024'')],
          JObj [(''name'', JStr ''Client 3''), (''products'', JStr ''none'')],
          JObj [(''name'', JStr ''Client 4''),
                (''products'', JList [JObj [(''name'', JStr ''Another'')]])]])"
  by (simp add: example_chunk_def)

lemma ex_items_wf:
  "list_all wf_item
         [JObj [(''name'', JStr ''Client 1''), (''invoice_number'', JStr ''123/2024''),
                (''products'', JList example_products)],
          JObj [(''name'', JStr ''Client 2''), (''invoice_number'', JStr ''124/2024'')],
          JObj [(''name'', JStr ''Client 3''), (''products'', JStr ''none'')],
          JObj [(''name'', JStr ''Client 4''),
                (''products'', JList [JObj [(''name'', JStr ''Another'')]])]]"
  by code_simp

lemma ex_kept:
  "List.map_filter (kept_record example_products_list example_coverings_list)
         [JObj [(''name'', JStr ''Client 1''), (''invoice_number'', JStr ''123/2024''),
                (''products'', JList example_products)],
          JObj [(''name'', JStr ''Client 2''), (''invoice_number'', JStr ''124/2024'')],
          JObj [(''name'', JStr ''Client 3''), (''products'', JStr ''none'')],
          JObj [(''name'', JStr ''Client 4''),
                (''products'', JList [JObj [(''name'', JStr ''Another'')]])]]
   = [JObj [(''name'', JStr ''Client 1''), (''invoice_number'', JStr ''123/2024''),
            (''products'', JList
               [JObj [(''name'', JStr ''Example Product''), (''quantity'', JInt 1),
                      (''coverings'', JList
                         [JObj [(''name'', JStr ''DURIAN''), (''code'', JStr ''003'')]])]])]]"
  by code_simp

theorem process_chunk_records_spec_witness:
  "process_item example_products_list example_coverings_list
       (JObj [(''name'', JStr ''Client 3''), (''products'', JStr ''none'')]) = Inr None
   \<and> processed_items_of (JObj example_chunk) example_products_list example_coverings_list =
       Inr [JObj [(''name'', JStr ''Client 1''), (''invoice_number'', JStr ''123/2024''),
                  (''products'', JList
                     [JObj [(''name'', JStr ''Example Product''), (''quantity'', JInt 1),
                            (''coverings'', JList
                               [JObj [(''name'', JStr ''DURIAN''),
                                      (''code'', JStr ''003'')]])]])]]"
  using process_chunk_records_spec [of example_products_list example_coverings_list
      example_chunk "[JObj [(''name'', JStr ''Client 1''), (''invoice_number'', JStr ''123/2024''),
                (''products'', JList example_products)],
          JObj [(''name'', JStr ''Client 2''), (''invoice_number'', JStr ''124/2024'')],
          JObj [(''name'', JStr ''Client 3''), (''products'', JStr ''none'')],
          JObj [(''name'', JStr ''Client 4''),
                (''products'', JList [JObj [(''name'', JStr ''Another'')]])]]"]
    ex_items ex_items_wf ex_kept
  by (simp only: process_item_skip) simp

text \<open>
  Claim C10.  When no record of a chunk keeps a product, \<^verbatim>\<open>process_chunk_data\<close> returns
  the empty list whatever the environment is: the model is never called, the state is
  the one it was given, and no client-name error can arise.
\<close>

theorem process_chunk_data_empty:
  assumes "processed_items_of chunk products_list coverings_list = Inr []"
  shows "process_chunk_data env chunk products_list coverings_list clients_list s =
           (Inr (JList []), s)"
  using assms by (simp add: process_chunk_data_def)

lemma ex_unmatched:
  "processed_items_of unmatched_chunk example_products_list example_coverings_list = Inr []"
  by code_simp

theorem process_chunk_data_empty_witness:
  "processed_items_of unmatched_chunk example_products_list example_coverings_list = Inr []
   \<and> (\<forall>env clients_list s.
        process_chunk_data env unmatched_chunk example_products_list example_coverings_list
          clients_list s = (Inr (JList []), s))"
  using process_chunk_data_empty [OF ex_unmatched] ex_unmatched by blast

section \<open>Failures of the extraction client\<close>

text \<open>
  Claim C8.  A missing key gives an error of its own, raised before the \<^verbatim>\<open>try\<close>.  A
  blocked request does not: its \<^verbatim>\<open>HTTPException\<close> is raised inside the \<^verbatim>\<open>try\<close>, caught
  by \<^verbatim>\<open>except Exception\<close> and raised again as the error of a failed call, so the caller
  receives exactly what it would receive had the provider itself failed with that
  exception.
\<close>

theorem call_llm_blocked_wrapped:
  "call_llm \<lparr>google_api_key = Some ''key'',
             generate_content =
               (\<lambda>s p. (Inr \<lparr>block_reason = Some reason, response_text = t\<rparr>, s)),
             exn_str = str, loads = l, dumps = d\<rparr> s prompt
     = (Inl (HTTPException 500
          (''Error during Gemini API call: '' @
           str (HTTPException 500 (''Request was blocked: '' @ reason)))), s)
   \<and> call_llm \<lparr>google_api_key = Some ''key'',
             generate_content =
               (\<lambda>s p. (Inl (HTTPException 500 (''Request was blocked: '' @ reason)), s)),
             exn_str = str, loads = l, dumps = d\<rparr> s prompt
     = (Inl (HTTPException 500
          (''Error during Gemini API call: '' @
           str (HTTPException 500 (''Request was blocked: '' @ reason)))), s)
   \<and> call_llm \<lparr>google_api_key = None, generate_content = g,
             exn_str = str, loads = l, dumps = d\<rparr> s prompt
     = (Inl (HTTPException 500
          ''GOOGLE_API_KEY not found in environment variables. Please set it in your .env file.''), s)"
  by (simp add: call_llm_def read_response_def)

section \<open>Chunks of pages\<close>

lemma py_range_eq:
  "0 < c \<Longrightarrow> py_range i n c = map (\<lambda>k. i + k * c) [0..<(n - i + c - 1) div c]"
proof (induction i n c rule: py_range.induct)
  case (1 i stop step)
  show ?case
  proof (cases "i < stop")
    case False
    with 1 have "(stop - i + step - 1) div step = 0" by simp
    with False show ?thesis by (simp add: py_range.simps [of i stop step])
  next
    case True
    with 1 have IH: "py_range (i + step) stop step =
        map (\<lambda>k. i + step + k * step) [0..<(stop - (i + step) + step - 1) div step]"
      by simp
    have cnt: "(stop - i + step - 1) div step = Suc ((stop - (i + step) + step - 1) div step)"
    proof -
      define q where "q = stop - i - 1"
      from True 1(2) have e: "stop - i + step - 1 = q + step" by (simp add: q_def)
      have "(q + step) div step = Suc (q div step)" using 1(2) by simp
      then have l: "(stop - i + step - 1) div step = Suc ((stop - i - 1) div step)"
        by (simp only: e q_def)
      have r: "(stop - (i + step) + step - 1) div step = (stop - i - 1) div step"
      proof (cases "i + step \<le> stop")
        case le: True
        then have "stop - (i + step) + step - 1 = stop - i - 1" by simp
        then show ?thesis by simp
      next
        case gt: False
        then have "stop - (i + step) + step - 1 = step - 1" by simp
        moreover from gt have "stop - i - 1 < step" using 1(2) by simp
        ultimately show ?thesis using 1(2) by simp
      qed
      from l r show ?thesis by simp
    qed
    have "py_range i stop step = i # py_range (i + step) stop step"
      using True 1(2) by (simp add: py_range.simps [of i stop step])
    also have "\<dots> = i # map (\<lambda>k. i + step + k * step)
        [0..<(stop - (i + step) + step - 1) div step]"
      by (simp only: IH)
    also have "\<dots> = map (\<lambda>k. i + k * step) [0..<Suc ((stop - (i + step) + step - 1) div step)]"
      by (simp add: upt_rec [of 0] map_Suc_upt [symmetric] del: upt_Suc)
    finally show ?thesis by (simp only: cnt)
  qed
qed


lemma page_chunks_eq:
  "page_chunks pages_text =
     map (\<lambda>k. (chunk_range (k * 10) (length pages_text),
                py_join newline (take 10 (drop (k * 10) pages_text))))
       [0..<(length pages_text + 9) div 10]"
  by (simp add: page_chunks_def PAGES_PER_CHUNK_def py_range_eq comp_def add.commute)




section \<open>Failures that end a run\<close>

lemma extract_chunks_append:
  "extract_chunks env main_prompt (pre @ rest) s =
     (case extract_chunks env main_prompt pre s of
        (Inl e, s') \<Rightarrow> (Inl e, s')
      | (Inr cs, s') \<Rightarrow>
          (case extract_chunks env main_prompt rest s' of
             (Inl e, s'') \<Rightarrow> (Inl e, s'')
           | (Inr ds, s'') \<Rightarrow> (Inr (cs @ ds), s'')))"
proof (induction pre arbitrary: s)
  case Nil
  show ?case by (simp split: prod.splits sum.splits)
next
  case (Cons p pre)
  obtain rng ctext where p: "p = (rng, ctext)" by (cases p)
  show ?case
    unfolding p append_Cons extract_chunks.simps Cons.IH
    by (simp split: prod.splits sum.splits exn.splits)
qed

lemma process_chunks_append:
  "process_chunks env pl cl clients (pre @ rest) s =
     (case process_chunks env pl cl clients pre s of
        (Inl e, s') \<Rightarrow> (Inl e, s')
      | (Inr xs, s') \<Rightarrow>
          (case process_chunks env pl cl clients rest s' of
             (Inl e, s'') \<Rightarrow> (Inl e, s'')
           | (Inr ys, s'') \<Rightarrow> (Inr (xs @ ys), s'')))"
proof (induction pre arbitrary: s)
  case Nil
  show ?case by (simp split: prod.splits sum.splits)
next
  case (Cons p pre)
  show ?case
    unfolding append_Cons process_chunks.simps Cons.IH
    by (simp split: prod.splits sum.splits)
qed

lemma page_chunks_label:
  assumes "page_chunks pages_text = pre @ (rng, ctext) # post"
  shows "rng = py_str (10 * length pre + 1) @ ''-'' @
               py_str (min (10 * length pre + 10) (length pages_text))"
proof -
  let ?k = "length pre"
  from assms have k: "?k < length (page_chunks pages_text)" by simp
  then have "?k < (length pages_text + 9) div 10" by (simp add: page_chunks_eq)
  then have "fst (page_chunks pages_text ! ?k) = chunk_range (?k * 10) (length pages_text)"
    by (simp add: page_chunks_eq)
  moreover from assms have "page_chunks pages_text ! ?k = (rng, ctext)" by simp
  ultimately show ?thesis
    by (simp add: chunk_range_def PAGES_PER_CHUNK_def mult.commute)
qed

text \<open>
  Claim C3.  Take any chunk of a run such that the chunks before it went through.  Its
  label is its range of pages.  If the call for it returns the empty string, the run ends
  with an \<^verbatim>\<open>HTTPException\<close> whose message is "no result ... for pages" followed by that
  label; if it returns a string that \<^verbatim>\<open>json.loads\<close> rejects, the run ends with an
  \<^verbatim>\<open>HTTPException\<close> whose message is "Error parsing JSON response for pages" followed by
  the label and the parser's message.  In both cases the result of the run is the
  exception: no document comes back.
\<close>

theorem extract_fails_on_bad_chunk:
  assumes "companyId \<noteq> []" and "map_of COMPANIES_INFO companyId = Some config"
    and "page_chunks pages_text = pre @ (rng, ctext) # post"
    and "extract_chunks env (MAIN_PROMPT config) pre s = (Inr chunks, s1)"
    and "call_llm env s1 (chunk_prompt (MAIN_PROMPT config) rng ctext) = (Inr answer, s2)"
  shows "rng = py_str (10 * length pre + 1) @ ''-'' @
               py_str (min (10 * length pre + 10) (length pages_text))
    \<and> (answer = [] \<longrightarrow>
         extract_invoice_data env COMPANIES_INFO file_name companyId (Inr clients_list)
           (Inr pages_text) s =
         (Inl (HTTPException 500
            (''Error: No result (raw invoice info) from Gemini API for pages '' @ rng)), s2))
    \<and> (answer \<noteq> [] \<and> loads env answer = Inl (JSONDecodeError msg) \<longrightarrow>
         extract_invoice_data env COMPANIES_INFO file_name companyId (Inr clients_list)
           (Inr pages_text) s =
         (Inl (HTTPException 500
            (''Error parsing JSON response for pages '' @ rng @ '': '' @
             exn_str env (JSONDecodeError msg))), s2))"
proof (intro conjI impI)
  show "rng = py_str (10 * length pre + 1) @ ''-'' @
               py_str (min (10 * length pre + 10) (length pages_text))"
    using assms(3) by (rule page_chunks_label)
next
  assume "answer = []"
  with assms(4,5)
  have "extract_chunks env (MAIN_PROMPT config) (pre @ (rng, ctext) # post) s =
      (Inl (HTTPException 500
            (''Error: No result (raw invoice info) from Gemini API for pages '' @ rng)), s2)"
    by (simp add: extract_chunks_append)
  with assms(1,2,3) show "extract_invoice_data env COMPANIES_INFO file_name companyId
      (Inr clients_list) (Inr pages_text) s =
         (Inl (HTTPException 500
            (''Error: No result (raw invoice info) from Gemini API for pages '' @ rng)), s2)"
    by (simp add: extract_invoice_data_def)
next
  assume "answer \<noteq> [] \<and> loads env answer = Inl (JSONDecodeError msg)"
  with assms(4,5)
  have "extract_chunks env (MAIN_PROMPT config) (pre @ (rng, ctext) # post) s =
      (Inl (HTTPException 500
            (''Error parsing JSON response for pages '' @ rng @ '': '' @
             exn_str env (JSONDecodeError msg))), s2)"
    by (simp add: extract_chunks_append)
  with assms(1,2,3) show "extract_invoice_data env COMPANIES_INFO file_name companyId
      (Inr clients_list) (Inr pages_text) s =
         (Inl (HTTPException 500
            (''Error parsing JSON response for pages '' @ rng @ '': '' @
             exn_str env (JSONDecodeError msg))), s2)"
    by (simp add: extract_invoice_data_def)
qed

lemma ex_registry:
  "map_of example_registry ''86e676e3-4cc0-4725-b12c-358d3b4b3e43'' = Some example_config"
  by (simp add: example_registry_def example_config_def)

lemma ex_page_chunks:
  "page_chunks (replicate 15 ''page'') =
     [(''1-10'', py_join newline (replicate 10 ''page''))] @
     (''11-15'', py_join newline (replicate 5 ''page'')) # []"
  by code_simp

lemma ex_first_chunk:
  "extract_chunks (example_env ''[]'' second) (MAIN_PROMPT example_config)
     [(''1-10'', py_join newline (replicate 10 ''page''))] 0 =
   (Inr [JObj [(''pages'', JStr ''1-10''), (''data'', JList [])]], 1)"
  by (simp add: example_env_def call_llm_def read_response_def)

lemma ex_second_call:
  "call_llm (example_env ''[]'' (Inr answer))
     1 (chunk_prompt (MAIN_PROMPT example_config) ''11-15''
        (py_join newline (replicate 5 ''page''))) = (Inr answer, 2)"
  by (simp add: example_env_def call_llm_def read_response_def)

theorem extract_fails_on_bad_chunk_witness:
  "extract_invoice_data (example_env ''[]'' (Inr [])) example_registry ''invoices.pdf''
     ''86e676e3-4cc0-4725-b12c-358d3b4b3e43'' (Inr (JList [])) (Inr (replicate 15 ''page'')) 0 =
     (Inl (HTTPException 500
        ''Error: No result (raw invoice info) from Gemini API for pages 11-15''), 2)
   \<and> extract_invoice_data (example_env ''[]'' (Inr ''not json'')) example_registry ''invoices.pdf''
     ''86e676e3-4cc0-4725-b12c-358d3b4b3e43'' (Inr (JList [])) (Inr (replicate 15 ''page'')) 0 =
     (Inl (HTTPException 500
        ''Error parsing JSON response for pages 11-15: Expecting value''), 2)"
proof -
  have id: "''86e676e3-4cc0-4725-b12c-358d3b4b3e43'' \<noteq> []" by simp
  note one = extract_fails_on_bad_chunk [where env = "example_env ''[]'' (Inr [])" and s = 0
      and ?s1.0 = 1 and ?s2.0 = 2 and answer = "[]" and file_name = "''invoices.pdf''"
      and clients_list = "JList []", OF id ex_registry ex_page_chunks ex_first_chunk
      ex_second_call]
  note two = extract_fails_on_bad_chunk [where env = "example_env ''[]'' (Inr ''not json'')"
      and s = 0 and ?s1.0 = 1 and ?s2.0 = 2 and answer = "''not json''"
      and msg = "''Expecting value''" and file_name = "''invoices.pdf''"
      and clients_list = "JList []", OF id ex_registry ex_page_chunks ex_first_chunk
      ex_second_call]
  have l: "loads (example_env ''[]'' (Inr ''not json'')) ''not json'' =
      Inl (JSONDecodeError ''Expecting value'')"
    by (simp add: example_env_def)
  have x: "exn_str (example_env ''[]'' (Inr ''not json'')) (JSONDecodeError ''Expecting value'')
      = ''Expecting value''"
    by (simp add: example_env_def)
  from one have a: "extract_invoice_data (example_env ''[]'' (Inr [])) example_registry
     ''invoices.pdf'' ''86e676e3-4cc0-4725-b12c-358d3b4b3e43'' (Inr (JList []))
     (Inr (replicate 15 ''page'')) 0 =
     (Inl (HTTPException 500
        ''Error: No result (raw invoice info) from Gemini API for pages 11-15''), 2)"
    by simp
  from two l x have b: "extract_invoice_data (example_env ''[]'' (Inr ''not json''))
     example_registry ''invoices.pdf'' ''86e676e3-4cc0-4725-b12c-358d3b4b3e43'' (Inr (JList []))
     (Inr (replicate 15 ''page'')) 0 =
     (Inl (HTTPException 500
        ''Error parsing JSON response for pages 11-15: Expecting value''), 2)"
    by simp
  from a b show ?thesis by simp
qed

text \<open>
  Claim C9.  Take a chunk that keeps some record, reached after the chunks before it went
  through.  If the second call of the model fails, or \<^verbatim>\<open>json.loads\<close> fails on its answer,
  \<^verbatim>\<open>process_chunk_data\<close> raises the \<^verbatim>\<open>HTTPException\<close> "Error during client names
  normalization in chunk", and that exception is the result of the whole run: the
  records of the chunk are not returned.
\<close>

theorem client_normalization_failure_aborts:
  assumes "companyId \<noteq> []" and "map_of COMPANIES_INFO companyId = Some config"
    and "extract_chunks env (MAIN_PROMPT config) (page_chunks pages_text) s = (Inr chunks, s1)"
    and "chunks = pre @ chunk # post"
    and "process_chunks env (PRODUCTS_LIST config) (COVERINGS_LIST config) clients_list pre s1
           = (Inr items_before, s2)"
    and "processed_items_of chunk (PRODUCTS_LIST config) (COVERINGS_LIST config)
           = Inr processed_items"
    and "processed_items \<noteq> []"
    and "call_llm env s2 (client_prompt env clients_list processed_items) = (answer, s3)"
    and "answer = Inl e \<or> (\<exists>t. answer = Inr t \<and> loads env t = Inl e)"
  shows "process_chunk_data env chunk (PRODUCTS_LIST config) (COVERINGS_LIST config)
           clients_list s2 =
         (Inl (HTTPException 500
            (''Error during client names normalization in chunk: '' @ exn_str env e)), s3)
    \<and> extract_invoice_data env COMPANIES_INFO file_name companyId (Inr clients_list)
           (Inr pages_text) s =
         (Inl (HTTPException 500
            (''Error during client names normalization in chunk: '' @ exn_str env e)), s3)"
proof -
  let ?err = "HTTPException 500
            (''Error during client names normalization in chunk: '' @ exn_str env e)"
  have one: "process_chunk_data env chunk (PRODUCTS_LIST config) (COVERINGS_LIST config)
           clients_list s2 = (Inl ?err, s3)"
    using assms(6,7,8,9) by (auto simp: process_chunk_data_def)
  with assms(5)
  have "process_chunks env (PRODUCTS_LIST config) (COVERINGS_LIST config) clients_list
          (pre @ chunk # post) s1 = (Inl ?err, s3)"
    by (simp add: process_chunks_append)
  with assms(4)
  have "normalize_results env chunks (PRODUCTS_LIST config) (COVERINGS_LIST config)
          clients_list s1 = (Inl ?err, s3)"
    by (simp add: normalize_results_def)
  moreover from assms(4) have "chunks \<noteq> []" by simp
  ultimately have "extract_invoice_data env COMPANIES_INFO file_name companyId
      (Inr clients_list) (Inr pages_text) s = (Inl ?err, s3)"
    using assms(1,2,3) by (simp add: extract_invoice_data_def)
  with one show ?thesis by simp
qed

lemma ex_one_page:
  "extract_chunks (example_env ''records'' second) (MAIN_PROMPT example_config)
     (page_chunks [''page'']) 0 = (Inr [example_raw_chunk], 1)"
proof -
  have "page_chunks [''page''] = [(''1-1'', ''page'')]" by code_simp
  then show ?thesis
    by (simp add: example_env_def call_llm_def read_response_def example_raw_chunk_def)
qed

lemma ex_processed:
  "processed_items_of example_raw_chunk (PRODUCTS_LIST example_config)
     (COVERINGS_LIST example_config) = Inr example_processed_items"
  by code_simp

lemma ex_client_call_fails:
  "call_llm (example_env ''records'' (Inl (OtherError ''timeout''))) 1 prompt =
     (Inl (HTTPException 500 ''Error during Gemini API call: timeout''), 2)"
  by (simp add: example_env_def call_llm_def read_response_def)

lemma ex_client_call_garbage:
  "call_llm (example_env ''records'' (Inr ''not json'')) 1 prompt = (Inr ''not json'', 2)"
  by (simp add: example_env_def call_llm_def read_response_def)

lemma ex_py_str_500: "py_str 500 = ''500''"
  by code_simp

theorem client_normalization_failure_aborts_witness:
  "extract_invoice_data (example_env ''records'' (Inl (OtherError ''timeout'')))
     example_registry ''invoices.pdf'' ''86e676e3-4cc0-4725-b12c-358d3b4b3e43''
     (Inr (JList [])) (Inr [''page'']) 0 =
     (Inl (HTTPException 500
        ''Error during client names normalization in chunk: 500: Error during Gemini API call: timeout''),
      2)
   \<and> extract_invoice_data (example_env ''records'' (Inr ''not json''))
     example_registry ''invoices.pdf'' ''86e676e3-4cc0-4725-b12c-358d3b4b3e43''
     (Inr (JList [])) (Inr [''page'']) 0 =
     (Inl (HTTPException 500
        ''Error during client names normalization in chunk: Expecting value''), 2)"
proof -
  have id: "''86e676e3-4cc0-4725-b12c-358d3b4b3e43'' \<noteq> []" by simp
  have split: "[example_raw_chunk] = [] @ example_raw_chunk # []" by simp
  have none: "process_chunks env (PRODUCTS_LIST example_config) (COVERINGS_LIST example_config)
      (JList []) [] (1::nat) = (Inr [], 1)" for env
    by simp
  have ne: "example_processed_items \<noteq> []" by (simp add: example_processed_items_def)
  let ?e1 = "HTTPException 500 ''Error during Gemini API call: timeout''"
  let ?e2 = "JSONDecodeError ''Expecting value''"
  have c1: "Inl (HTTPException 500 ''Error during Gemini API call: timeout'') = Inl ?e1 \<or>
      (\<exists>t. (Inl (HTTPException 500 ''Error during Gemini API call: timeout'') :: exn + string)
         = Inr t \<and>
         loads (example_env ''records'' (Inl (OtherError ''timeout''))) t = Inl ?e1)"
    by simp
  have c2: "(Inr ''not json'' :: exn + string) = Inl ?e2 \<or>
      (\<exists>t. (Inr ''not json'' :: exn + string) = Inr t \<and>
         loads (example_env ''records'' (Inr ''not json'')) t = Inl ?e2)"
    by (simp add: example_env_def)
  note one = client_normalization_failure_aborts [where file_name = "''invoices.pdf''",
      OF id ex_registry ex_one_page split none ex_processed ne ex_client_call_fails c1]
  note two = client_normalization_failure_aborts [where file_name = "''invoices.pdf''",
      OF id ex_registry ex_one_page split none ex_processed ne ex_client_call_garbage c2]
  have x1: "exn_str (example_env ''records'' (Inl (OtherError ''timeout''))) ?e1 =
      ''500: Error during Gemini API call: timeout''"
    by (simp add: example_env_def ex_py_str_500)
  have x2: "exn_str (example_env ''records'' (Inr ''not json'')) ?e2 = ''Expecting value''"
    by (simp add: example_env_def)
  from one x1 two x2 show ?thesis by simp
qed

end
